theory Spec2Isabelle
  imports Complex_Main "HOL-Library.Sublist"
begin

text \<open>
  A shallow embedding of \<^verbatim>\<open>climagrid-backend/main.py\<close>: the geo distance, the
  observation store with its queries, the forecast fetcher, the timeseries composer and
  the geocode adapter.  What a handler reads from outside (upstream replies, the clock,
  the uuid) is an argument; exceptions are values.  A float is the real number it
  denotes, and the floating-point operations of the distance function are an argument
  too.
\<close>

section \<open>Python values used by the backend\<close>

text \<open>
  Exceptions are values.  \<open>HTTPException\<close> carries the status code of the
  \<^verbatim>\<open>raise HTTPException(status_code=...)\<close> statements; the others are the
  exceptions of the standard library and of pydantic that no handler of
  \<^verbatim>\<open>main.py\<close> catches.
\<close>

datatype error =
    TypeError | ValueError | AttributeError | OverflowError | ValidationError
  | HTTPException nat

text \<open>
  A \<^verbatim>\<open>datetime\<close> is its calendar fields (here: microseconds on the
  proleptic calendar) and an optional \<^verbatim>\<open>tzinfo\<close>, given by its UTC offset in
  microseconds.  A datetime without \<^verbatim>\<open>tzinfo\<close> is naive.
  \<^verbatim>\<open>datetime.utcnow()\<close> always returns a naive one.  The range of the type
  (years 1 to 9999) is not modelled: adding or subtracting hours never overflows.
\<close>

record datetime =
  wall :: int
  tzinfo :: "int option"

definition utcnow :: "int \<Rightarrow> datetime" where
  "utcnow clock = \<lparr>wall = clock, tzinfo = None\<rparr>"

definition timedelta_hours :: "int \<Rightarrow> int" where
  "timedelta_hours hours = hours * 3600000000"

definition dt_plus :: "datetime \<Rightarrow> int \<Rightarrow> datetime" where
  "dt_plus d delta = d\<lparr>wall := wall d + delta\<rparr>"

definition dt_minus :: "datetime \<Rightarrow> int \<Rightarrow> datetime" where
  "dt_minus d delta = d\<lparr>wall := wall d - delta\<rparr>"

text \<open>
  \<^verbatim>\<open>a < b\<close> on datetimes: two naive values compare by their fields, two aware
  values by their UTC instants, and a naive value against an aware one raises
  \<^verbatim>\<open>TypeError: can't compare offset-naive and offset-aware datetimes\<close>.
\<close>

definition dt_less :: "datetime \<Rightarrow> datetime \<Rightarrow> error + bool" where
  "dt_less a b =
     (case (tzinfo a, tzinfo b) of
        (None, None) \<Rightarrow> Inr (wall a < wall b)
      | (Some oa, Some ob) \<Rightarrow> Inr (wall a - oa < wall b - ob)
      | _ \<Rightarrow> Inl TypeError)"

definition dt_greater :: "datetime \<Rightarrow> datetime \<Rightarrow> error + bool" where
  "dt_greater a b = dt_less b a"

definition utc_key :: "datetime \<Rightarrow> int" where
  "utc_key d = (case tzinfo d of None \<Rightarrow> wall d | Some off \<Rightarrow> wall d - off)"

section \<open>Data model\<close>

datatype MetricKey = temperature | humidity | precipitation | windspeed

record metric_config =
  label :: string
  api_field :: string
  unit :: string

fun METRIC_CATALOG :: "MetricKey \<Rightarrow> metric_config" where
  "METRIC_CATALOG temperature =
     \<lparr>label = ''Air Temperature'', api_field = ''temperature_2m'',
      unit = [CHR 0xC2, CHR 0xB0, CHR ''C'']\<rparr>"
| "METRIC_CATALOG humidity =
     \<lparr>label = ''Relative Humidity'', api_field = ''relativehumidity_2m'', unit = ''%''\<rparr>"
| "METRIC_CATALOG precipitation =
     \<lparr>label = ''Precipitation'', api_field = ''precipitation'', unit = ''mm''\<rparr>"
| "METRIC_CATALOG windspeed =
     \<lparr>label = ''Wind Speed'', api_field = ''windspeed_10m'', unit = ''km/h''\<rparr>"

text \<open>
  The pydantic models.  Floats are idealised as reals.  Field names that are
  reserved words of the prover carry a prime (\<open>value'\<close>, \<open>notes'\<close>, \<open>id'\<close>);
  the fields of \<open>TimeseriesPoint\<close>, \<open>TimeseriesResponse\<close> and
  \<open>GeocodeResult\<close> carry a prefix, since a field name belongs to one record.
\<close>

record TimeseriesPoint =
  pt_timestamp :: datetime
  pt_value :: real

record BaseObservation =
  timestamp :: datetime
  metric :: MetricKey
  value' :: real
  latitude :: real
  longitude :: real
  location_name :: "string option"
  source :: "string option"
  notes' :: "string option"

record ObservationRecord = BaseObservation +
  id' :: string
  submitted_at :: datetime

record TimeseriesResponse =
  resp_metric :: MetricKey
  metric_label :: string
  resp_unit :: string
  resp_latitude :: real
  resp_longitude :: real
  hours_requested :: int
  resp_source :: string
  points :: "TimeseriesPoint list"
  user_observations :: "ObservationRecord list"

text \<open>The process-wide list \<^verbatim>\<open>USER_OBSERVATIONS\<close> is passed explicitly.\<close>

type_synonym store = "ObservationRecord list"

section \<open>Geo distance\<close>

text \<open>
  The arithmetic of doubles is a parameter of the model: a record of the operations
  that \<^verbatim>\<open>_haversine_distance_km\<close> uses, each giving the double that the platform
  returns (\<open>f_sq\<close> is \<^verbatim>\<open>x ** 2\<close>).  Infinities and NaN are not modelled.
  \<open>exact\<close> is the arithmetic of the reals, without rounding.
\<close>

record arith =
  f_sub :: "real \<Rightarrow> real \<Rightarrow> real"
  f_add :: "real \<Rightarrow> real \<Rightarrow> real"
  f_mul :: "real \<Rightarrow> real \<Rightarrow> real"
  f_div :: "real \<Rightarrow> real \<Rightarrow> real"
  f_sq :: "real \<Rightarrow> real"
  f_radians :: "real \<Rightarrow> real"
  f_sin :: "real \<Rightarrow> real"
  f_cos :: "real \<Rightarrow> real"
  f_sqrt :: "real \<Rightarrow> real"
  f_asin :: "real \<Rightarrow> real"

definition radians :: "real \<Rightarrow> real" where
  "radians x = x * (pi / 180)"

definition exact :: arith where
  "exact = \<lparr>f_sub = (\<lambda>x y. x - y), f_add = (\<lambda>x y. x + y), f_mul = (\<lambda>x y. x * y),
            f_div = (\<lambda>x y. x / y), f_sq = (\<lambda>x. x\<^sup>2), f_radians = radians,
            f_sin = sin, f_cos = cos, f_sqrt = sqrt, f_asin = arcsin\<rparr>"

text \<open>
  \<^verbatim>\<open>math.sqrt\<close> raises \<^verbatim>\<open>ValueError\<close> on a negative argument and
  \<^verbatim>\<open>math.asin\<close> outside \<open>[-1, 1]\<close>.
\<close>

definition py_sqrt :: "arith \<Rightarrow> real \<Rightarrow> error + real" where
  "py_sqrt fl x = (if x < 0 then Inl ValueError else Inr (f_sqrt fl x))"

definition py_asin :: "arith \<Rightarrow> real \<Rightarrow> error + real" where
  "py_asin fl x = (if x < - 1 \<or> 1 < x then Inl ValueError else Inr (f_asin fl x))"

text \<open>The value of the local variable \<^verbatim>\<open>a\<close> of \<^verbatim>\<open>_haversine_distance_km\<close>.\<close>

definition haversine_a :: "arith \<Rightarrow> real \<Rightarrow> real \<Rightarrow> real \<Rightarrow> real \<Rightarrow> real" where
  "haversine_a fl lat1 lon1 lat2 lon2 =
     (let d_lat = f_radians fl (f_sub fl lat2 lat1);
          d_lon = f_radians fl (f_sub fl lon2 lon1)
      in f_add fl
           (f_sq fl (f_sin fl (f_div fl d_lat 2)))
           (f_mul fl
              (f_mul fl (f_cos fl (f_radians fl lat1)) (f_cos fl (f_radians fl lat2)))
              (f_sq fl (f_sin fl (f_div fl d_lon 2)))))"

definition haversine_distance_km ::
  "arith \<Rightarrow> real \<Rightarrow> real \<Rightarrow> real \<Rightarrow> real \<Rightarrow> error + real" where
  "haversine_distance_km fl lat1 lon1 lat2 lon2 =
     (let r = 6371;
          a = haversine_a fl lat1 lon1 lat2 lon2
      in case py_sqrt fl a of
           Inl e \<Rightarrow> Inl e
         | Inr s \<Rightarrow> (case py_asin fl s of
                      Inl e \<Rightarrow> Inl e
                    | Inr t \<Rightarrow> Inr (f_mul fl r (f_mul fl 2 t))))"

section \<open>Observation queries\<close>

text \<open>
  The loop of \<^verbatim>\<open>_filter_user_observations\<close>, with \<open>matches\<close> as accumulator.
  \<open>metric_opt\<close> is the optional metric: every metric key is a non-empty string, so
  \<^verbatim>\<open>if metric and ...\<close> tests for \<^verbatim>\<open>None\<close>.
\<close>

fun filter_loop ::
  "arith \<Rightarrow> real \<Rightarrow> real \<Rightarrow> MetricKey option \<Rightarrow> datetime \<Rightarrow> real \<Rightarrow>
   ObservationRecord list \<Rightarrow> ObservationRecord list \<Rightarrow> error + ObservationRecord list" where
  "filter_loop fl lat lon metric_opt cutoff radius_km [] matches = Inr matches"
| "filter_loop fl lat lon metric_opt cutoff radius_km (obs # rest) matches =
     (if metric_opt \<noteq> None \<and> Some (metric obs) \<noteq> metric_opt
      then filter_loop fl lat lon metric_opt cutoff radius_km rest matches
      else case dt_less (timestamp obs) cutoff of
             Inl e \<Rightarrow> Inl e
           | Inr older \<Rightarrow>
               if older then filter_loop fl lat lon metric_opt cutoff radius_km rest matches
               else (case haversine_distance_km fl lat lon (latitude obs) (longitude obs) of
                       Inl e \<Rightarrow> Inl e
                     | Inr d \<Rightarrow>
                         if d > radius_km
                         then filter_loop fl lat lon metric_opt cutoff radius_km rest matches
                         else filter_loop fl lat lon metric_opt cutoff radius_km rest (matches @ [obs])))"

text \<open>
  \<^verbatim>\<open>sorted(xs, key=lambda item: item.timestamp)\<close>: a stable sort.  Comparing the
  keys raises \<^verbatim>\<open>TypeError\<close> when naive and aware timestamps are mixed.
\<close>

definition py_sorted :: "ObservationRecord list \<Rightarrow> error + ObservationRecord list" where
  "py_sorted xs =
     (if (\<exists>x \<in> set xs. tzinfo (timestamp x) = None) \<and> (\<exists>x \<in> set xs. tzinfo (timestamp x) \<noteq> None)
      then Inl TypeError
      else Inr (sort_key (\<lambda>item. utc_key (timestamp item)) xs))"

definition filter_user_observations ::
  "arith \<Rightarrow> store \<Rightarrow> real \<Rightarrow> real \<Rightarrow> MetricKey option \<Rightarrow> int \<Rightarrow> real \<Rightarrow> int \<Rightarrow>
   error + ObservationRecord list" where
  "filter_user_observations fl USER_OBSERVATIONS lat lon metric_opt hours radius_km clock =
     (let cutoff = dt_minus (utcnow clock) (timedelta_hours hours)
      in case filter_loop fl lat lon metric_opt cutoff radius_km USER_OBSERVATIONS [] of
           Inl e \<Rightarrow> Inl e
         | Inr matches \<Rightarrow> py_sorted matches)"

text \<open>
  The loop of \<^verbatim>\<open>list_observations\<close>; the distance test runs only when both
  coordinates are given.
\<close>

fun list_loop ::
  "arith \<Rightarrow> MetricKey option \<Rightarrow> datetime \<Rightarrow> real option \<Rightarrow> real option \<Rightarrow> real \<Rightarrow>
   ObservationRecord list \<Rightarrow> ObservationRecord list \<Rightarrow> error + ObservationRecord list" where
  "list_loop fl metric_opt cutoff lat_opt lon_opt radius_km [] filtered = Inr filtered"
| "list_loop fl metric_opt cutoff lat_opt lon_opt radius_km (obs # rest) filtered =
     (if metric_opt \<noteq> None \<and> Some (metric obs) \<noteq> metric_opt
      then list_loop fl metric_opt cutoff lat_opt lon_opt radius_km rest filtered
      else case dt_less (timestamp obs) cutoff of
             Inl e \<Rightarrow> Inl e
           | Inr older \<Rightarrow>
               if older then list_loop fl metric_opt cutoff lat_opt lon_opt radius_km rest filtered
               else (case (lat_opt, lon_opt) of
                       (Some lat, Some lon) \<Rightarrow>
                         (case haversine_distance_km fl lat lon (latitude obs) (longitude obs) of
                            Inl e \<Rightarrow> Inl e
                          | Inr d \<Rightarrow>
                              if d > radius_km
                              then list_loop fl metric_opt cutoff lat_opt lon_opt radius_km rest filtered
                              else list_loop fl metric_opt cutoff lat_opt lon_opt radius_km rest
                                     (filtered @ [obs]))
                     | _ \<Rightarrow>
                         list_loop fl metric_opt cutoff lat_opt lon_opt radius_km rest
                           (filtered @ [obs])))"

text \<open>
  \<^verbatim>\<open>list_observations\<close> (GET /observations).  The clock is read twice: \<open>clock1\<close>
  inside \<^verbatim>\<open>_filter_user_observations\<close> (only when both coordinates are given) and
  \<open>clock2\<close> for the handler's own cutoff.
\<close>

definition list_observations ::
  "arith \<Rightarrow> store \<Rightarrow> MetricKey option \<Rightarrow> real option \<Rightarrow> real option \<Rightarrow> real \<Rightarrow> int \<Rightarrow> int \<Rightarrow> int \<Rightarrow>
   error + ObservationRecord list" where
  "list_observations fl USER_OBSERVATIONS metric_opt lat_opt lon_opt radius_km hours clock1 clock2 =
     (case (case (lat_opt, lon_opt) of
              (Some lat, Some lon) \<Rightarrow>
                filter_user_observations fl USER_OBSERVATIONS lat lon metric_opt hours radius_km clock1
            | _ \<Rightarrow> Inr USER_OBSERVATIONS) of
        Inl e \<Rightarrow> Inl e
      | Inr data \<Rightarrow>
          (let cutoff = dt_minus (utcnow clock2) (timedelta_hours hours)
           in case list_loop fl metric_opt cutoff lat_opt lon_opt radius_km data [] of
                Inl e \<Rightarrow> Inl e
              | Inr filtered \<Rightarrow> py_sorted filtered))"

section \<open>POST /observations\<close>

text \<open>\<^verbatim>\<open>x or default\<close> on an optional string: \<^verbatim>\<open>None\<close> and \<^verbatim>\<open>""\<close> are falsy.\<close>

definition str_or :: "string option \<Rightarrow> string \<Rightarrow> string" where
  "str_or x dflt = (case x of None \<Rightarrow> dflt | Some s \<Rightarrow> if s = [] then dflt else s)"

text \<open>
  \<^verbatim>\<open>add_observation\<close>: \<open>uuid\<close> is the string of \<^verbatim>\<open>uuid4()\<close> and \<open>clock\<close> the
  reading of \<^verbatim>\<open>datetime.utcnow()\<close>.  It returns the record and the store after
  \<^verbatim>\<open>USER_OBSERVATIONS.append(record)\<close>.
\<close>

definition add_observation ::
  "BaseObservation \<Rightarrow> string \<Rightarrow> int \<Rightarrow> store \<Rightarrow> ObservationRecord \<times> store" where
  "add_observation obs uuid clock USER_OBSERVATIONS =
     (let record = \<lparr>timestamp = timestamp obs,
                    metric = metric obs,
                    value' = value' obs,
                    latitude = latitude obs,
                    longitude = longitude obs,
                    location_name = location_name obs,
                    source = Some (str_or (source obs) ''user''),
                    notes' = notes' obs,
                    id' = uuid,
                    submitted_at = utcnow clock\<rparr>
      in (record, USER_OBSERVATIONS @ [record]))"

section \<open>Forecast fetcher\<close>

text \<open>
  The reply of an upstream provider is an input: either an \<^verbatim>\<open>httpx.HTTPError\<close>
  (transport failure or \<^verbatim>\<open>raise_for_status\<close>) or the decoded JSON body.  The
  forecast body is \<open>None\<close> for JSON \<^verbatim>\<open>null\<close> and an object otherwise; its
  \<^verbatim>\<open>hourly\<close> key is absent, \<^verbatim>\<open>null\<close> or an object.  In that object the
  \<^verbatim>\<open>time\<close> entry is a list of strings and the other entries are lists of numbers
  or nulls; an entry is \<open>None\<close> when its key is absent or \<^verbatim>\<open>null\<close>, which
  \<^verbatim>\<open>.get\<close> does not tell apart.  A JSON number is decoded to an
  \<^verbatim>\<open>int\<close> or to a \<^verbatim>\<open>float\<close>.  The request parameters (among them
  \<^verbatim>\<open>forecast_days\<close>) reach the provider only and are not modelled.
\<close>

datatype 'a http_reply = HTTPError | Reply 'a

datatype 'a json_key = Absent | Null | Present 'a

datatype json_number = JInt int | JFloat real

record hourly_obj =
  time_array :: "string list option"
  field_array :: "string \<Rightarrow> json_number option list option"

record forecast_payload =
  hourly :: "hourly_obj json_key"

text \<open>\<^verbatim>\<open>raw_time.replace("Z", "+00:00")\<close>\<close>

definition replace_Z :: "string \<Rightarrow> string" where
  "replace_Z raw_time = concat (map (\<lambda>c. if c = CHR ''Z'' then ''+00:00'' else [c]) raw_time)"

text \<open>
  \<^verbatim>\<open>datetime.fromisoformat\<close> is a parameter of the model: \<open>None\<close> stands for its
  \<^verbatim>\<open>ValueError\<close>.  Python returns an aware datetime for a string that carries a UTC
  offset and a naive one otherwise.
\<close>

type_synonym iso_parser = "string \<Rightarrow> datetime option"

text \<open>
  \<^verbatim>\<open>float(raw_value)\<close>: an \<^verbatim>\<open>int\<close> that rounds beyond the largest double
  raises \<^verbatim>\<open>OverflowError\<close>; the rounding of the others is not modelled.
\<close>

fun py_float :: "json_number \<Rightarrow> error + real" where
  "py_float (JFloat x) = Inr x"
| "py_float (JInt i) =
     (if 2 ^ 1024 - 2 ^ 970 \<le> \<bar>i\<bar> then Inl OverflowError else Inr (of_int i))"

text \<open>The loop over \<^verbatim>\<open>zip(timestamps, values)\<close>, with \<open>pts\<close> as accumulator.\<close>

fun fetch_loop ::
  "iso_parser \<Rightarrow> datetime \<Rightarrow> (string \<times> json_number option) list \<Rightarrow> TimeseriesPoint list \<Rightarrow>
   error + TimeseriesPoint list" where
  "fetch_loop fromisoformat cutoff [] pts = Inr pts"
| "fetch_loop fromisoformat cutoff ((raw_time, raw_value) # rest) pts =
     (case fromisoformat (replace_Z raw_time) of
        None \<Rightarrow> fetch_loop fromisoformat cutoff rest pts
      | Some ts \<Rightarrow>
          (case dt_greater ts cutoff of
             Inl e \<Rightarrow> Inl e
           | Inr later \<Rightarrow>
               if later then Inr pts
               else (case raw_value of
                       None \<Rightarrow> fetch_loop fromisoformat cutoff rest pts
                     | Some n \<Rightarrow>
                         (case py_float n of
                            Inl e \<Rightarrow> Inl e
                          | Inr v \<Rightarrow>
                              fetch_loop fromisoformat cutoff rest
                                (pts @ [\<lparr>pt_timestamp = ts, pt_value = v\<rparr>])))))"

text \<open>\<^verbatim>\<open>xs[:n]\<close>: a negative \<open>n\<close> counts from the end.\<close>

definition py_slice_to :: "'a list \<Rightarrow> int \<Rightarrow> 'a list" where
  "py_slice_to xs n = (if 0 \<le> n then take (nat n) xs else take (length xs - nat (- n)) xs)"

text \<open>\<^verbatim>\<open>not xs\<close> on an optional list: \<^verbatim>\<open>None\<close> and \<^verbatim>\<open>[]\<close> are falsy.\<close>

definition falsy :: "'a list option \<Rightarrow> bool" where
  "falsy xs = (case xs of None \<Rightarrow> True | Some ys \<Rightarrow> ys = [])"

definition or_empty :: "'a list option \<Rightarrow> 'a list" where
  "or_empty xs = (case xs of None \<Rightarrow> [] | Some ys \<Rightarrow> ys)"

text \<open>
  \<^verbatim>\<open>hourly = payload.get("hourly", {})\<close> followed by the first
  \<^verbatim>\<open>hourly.get\<close>: the default stands in for an absent key only, and a
  \<^verbatim>\<open>null\<close> has no \<^verbatim>\<open>get\<close>.
\<close>

definition hourly_dict :: "forecast_payload \<Rightarrow> error + hourly_obj" where
  "hourly_dict payload =
     (case hourly payload of
        Absent \<Rightarrow> Inr \<lparr>time_array = None, field_array = (\<lambda>k. None)\<rparr>
      | Null \<Rightarrow> Inl AttributeError
      | Present h \<Rightarrow> Inr h)"

definition fetch_hourly_data ::
  "iso_parser \<Rightarrow> MetricKey \<Rightarrow> real \<Rightarrow> real \<Rightarrow> int \<Rightarrow>
   forecast_payload option http_reply \<Rightarrow> int \<Rightarrow> error + TimeseriesResponse" where
  "fetch_hourly_data fromisoformat metric_key lat lon hours response clock =
     (let config = METRIC_CATALOG metric_key
      in case response of
           HTTPError \<Rightarrow> Inl (HTTPException 502)
         | Reply None \<Rightarrow> Inl AttributeError
         | Reply (Some payload) \<Rightarrow>
             (case hourly_dict payload of
                Inl e \<Rightarrow> Inl e
              | Inr hourly_d \<Rightarrow>
                 (let timestamps = time_array hourly_d;
                      values = field_array hourly_d (api_field config)
                  in if falsy timestamps \<or> falsy values then Inl (HTTPException 502)
                     else
                       (let now = utcnow clock;
                            cutoff = dt_plus now (timedelta_hours hours)
                        in case fetch_loop fromisoformat cutoff
                                  (zip (or_empty timestamps) (or_empty values)) [] of
                             Inl e \<Rightarrow> Inl e
                           | Inr pts \<Rightarrow>
                               if pts = [] then Inl (HTTPException 404)
                               else Inr \<lparr>resp_metric = metric_key,
                                         metric_label = label config,
                                         resp_unit = unit config,
                                         resp_latitude = lat,
                                         resp_longitude = lon,
                                         hours_requested = hours,
                                         resp_source = ''open-meteo'',
                                         points = py_slice_to pts hours,
                                         user_observations = []\<rparr>))))"

section \<open>Geocode adapter\<close>

text \<open>
  An element of the provider's \<^verbatim>\<open>results\<close> list is a JSON object; each key may be
  absent.  \<^verbatim>\<open>GeocodeResult(**item)\<close> raises pydantic's \<^verbatim>\<open>ValidationError\<close> when a
  required field (\<^verbatim>\<open>name\<close>, \<^verbatim>\<open>latitude\<close>, \<^verbatim>\<open>longitude\<close>) is missing.
\<close>

record geo_item =
  item_id :: "int option"
  item_name :: "string option"
  item_country :: "string option"
  item_admin1 :: "string option"
  item_latitude :: "real option"
  item_longitude :: "real option"
  item_timezone :: "string option"

record GeocodeResult =
  geo_id :: "int option"
  geo_name :: string
  geo_country :: "string option"
  geo_admin1 :: "string option"
  geo_latitude :: real
  geo_longitude :: real
  geo_timezone :: "string option"

record geocode_payload =
  results :: "geo_item list option"

definition GeocodeResult_init :: "geo_item \<Rightarrow> error + GeocodeResult" where
  "GeocodeResult_init item =
     (case (item_name item, item_latitude item, item_longitude item) of
        (Some n, Some la, Some lo) \<Rightarrow>
          Inr \<lparr>geo_id = item_id item,
               geo_name = n,
               geo_country = item_country item,
               geo_admin1 = item_admin1 item,
               geo_latitude = la,
               geo_longitude = lo,
               geo_timezone = item_timezone item\<rparr>
      | _ \<Rightarrow> Inl ValidationError)"

text \<open>The list comprehension \<^verbatim>\<open>[GeocodeResult(**item) for item in results]\<close>.\<close>

fun geocode_comprehension :: "geo_item list \<Rightarrow> error + GeocodeResult list" where
  "geocode_comprehension [] = Inr []"
| "geocode_comprehension (item # rest) =
     (case GeocodeResult_init item of
        Inl e \<Rightarrow> Inl e
      | Inr r \<Rightarrow> (case geocode_comprehension rest of
                   Inl e \<Rightarrow> Inl e
                 | Inr rs \<Rightarrow> Inr (r # rs)))"

text \<open>
  The list the comprehension runs over: \<^verbatim>\<open>payload = response.json() or {}\<close>, then
  \<^verbatim>\<open>payload.get("results") or []\<close>.  The body is \<open>None\<close> when
  \<^verbatim>\<open>response.json()\<close> is falsy (\<^verbatim>\<open>null\<close> or \<^verbatim>\<open>{}\<close>).
\<close>

definition geocode_items :: "geocode_payload option \<Rightarrow> geo_item list" where
  "geocode_items body =
     (let payload = (case body of None \<Rightarrow> \<lparr>results = None\<rparr> | Some b \<Rightarrow> b)
      in or_empty (results payload))"

text \<open>\<^verbatim>\<open>geocode\<close> (GET /geocode).\<close>

definition geocode :: "geocode_payload option http_reply \<Rightarrow> error + GeocodeResult list" where
  "geocode response =
     (case response of
        HTTPError \<Rightarrow> Inl (HTTPException 502)
      | Reply body \<Rightarrow> geocode_comprehension (geocode_items body))"

section \<open>Timeseries composer\<close>

text \<open>
  \<^verbatim>\<open>timeseries\<close> (GET /timeseries).  The metric is a key of the catalog by its type,
  so the 400 branch is not reachable.  \<open>clock1\<close> is read by the fetcher, \<open>clock2\<close> by
  the observation filter, which runs with the default radius of 75 km.
\<close>

definition timeseries ::
  "arith \<Rightarrow> iso_parser \<Rightarrow> store \<Rightarrow> MetricKey \<Rightarrow> real \<Rightarrow> real \<Rightarrow> int \<Rightarrow> bool \<Rightarrow>
   forecast_payload option http_reply \<Rightarrow> int \<Rightarrow> int \<Rightarrow> error + TimeseriesResponse" where
  "timeseries fl fromisoformat USER_OBSERVATIONS metric_key lat lon hours include_user_observations
     response clock1 clock2 =
     (case fetch_hourly_data fromisoformat metric_key lat lon hours response clock1 of
        Inl e \<Rightarrow> Inl e
      | Inr series \<Rightarrow>
          if include_user_observations
          then (case filter_user_observations fl USER_OBSERVATIONS lat lon (Some metric_key) hours 75 clock2 of
                  Inl e \<Rightarrow> Inl e
                | Inr obs \<Rightarrow> Inr (series\<lparr>user_observations := obs\<rparr>))
          else Inr series)"

section \<open>The request handlers as transitions of the store\<close>

text \<open>
  A request carries, besides its parameters, what the handler reads from the outside
  while it runs: upstream replies, clock readings and the fresh uuid.  The arithmetic
  and the timestamp parser are the same for all requests.
\<close>

datatype request =
    Healthz
  | Root
  | AvailableMetrics
  | Geocode "geocode_payload option http_reply"
  | Timeseries MetricKey real real int bool "forecast_payload option http_reply" int int
  | ListObservations "MetricKey option" "real option" "real option" real int int int
  | AddObservation BaseObservation string int

datatype response =
    StatusOk
  | Catalog
  | GeocodeResults "error + GeocodeResult list"
  | Series "error + TimeseriesResponse"
  | Observations "error + ObservationRecord list"
  | Created ObservationRecord

fun handle :: "arith \<Rightarrow> iso_parser \<Rightarrow> request \<Rightarrow> store \<Rightarrow> response \<times> store" where
  "handle fl p Healthz st = (StatusOk, st)"
| "handle fl p Root st = (StatusOk, st)"
| "handle fl p AvailableMetrics st = (Catalog, st)"
| "handle fl p (Geocode reply) st = (GeocodeResults (geocode reply), st)"
| "handle fl p (Timeseries m lat lon hours incl reply clock1 clock2) st =
     (Series (timeseries fl p st m lat lon hours incl reply clock1 clock2), st)"
| "handle fl p (ListObservations m lat lon radius_km hours clock1 clock2) st =
     (Observations (list_observations fl st m lat lon radius_km hours clock1 clock2), st)"
| "handle fl p (AddObservation obs uuid clock) st =
     (case add_observation obs uuid clock st of (record, st') \<Rightarrow> (Created record, st'))"

fun run :: "arith \<Rightarrow> iso_parser \<Rightarrow> request list \<Rightarrow> store \<Rightarrow> store" where
  "run fl p [] st = st"
| "run fl p (req # reqs) st = run fl p reqs (snd (handle fl p req st))"

section \<open>Vocabulary of the specification\<close>

text \<open>
  The three conditions of the observation filter, in the words of the specification:
  the metric equals the given one when one is given, the timestamp is not older than
  the cutoff, and the great-circle distance from the centre is at most the radius.
\<close>

definition metric_matches :: "MetricKey option \<Rightarrow> ObservationRecord \<Rightarrow> bool" where
  "metric_matches metric_opt obs = (metric_opt = None \<or> metric_opt = Some (metric obs))"

definition recent :: "int \<Rightarrow> ObservationRecord \<Rightarrow> bool" where
  "recent cutoff_wall obs = (cutoff_wall \<le> wall (timestamp obs))"

definition within_radius ::
  "arith \<Rightarrow> real \<Rightarrow> real \<Rightarrow> real \<Rightarrow> ObservationRecord \<Rightarrow> bool" where
  "within_radius fl lat lon radius_km obs =
     (case haversine_distance_km fl lat lon (latitude obs) (longitude obs) of
        Inl e \<Rightarrow> False
      | Inr d \<Rightarrow> d \<le> radius_km)"

definition passes ::
  "arith \<Rightarrow> real option \<Rightarrow> real option \<Rightarrow> MetricKey option \<Rightarrow> int \<Rightarrow> real \<Rightarrow> ObservationRecord \<Rightarrow> bool" where
  "passes fl lat_opt lon_opt metric_opt cutoff_wall radius_km obs =
     (metric_matches metric_opt obs \<and> recent cutoff_wall obs \<and>
      (case (lat_opt, lon_opt) of
         (Some lat, Some lon) \<Rightarrow> within_radius fl lat lon radius_km obs
       | _ \<Rightarrow> True))"

text \<open>
  A record whose metric passes the first test and whose timestamp is timezone-aware:
  its comparison with the naive cutoff is the one that raises.
\<close>

definition aware_match :: "MetricKey option \<Rightarrow> ObservationRecord \<Rightarrow> bool" where
  "aware_match metric_opt obs = (metric_matches metric_opt obs \<and> tzinfo (timestamp obs) \<noteq> None)"

text \<open>
  Step 5 of the fetcher in the words of the specification: the pairs before the first
  one whose parsed timestamp exceeds the cutoff, of which those with a parsed timestamp
  and a value become points.  \<open>convertible\<close> says that no value of the pairs
  overflows in \<^verbatim>\<open>float\<close>.
\<close>

definition exceeds :: "iso_parser \<Rightarrow> int \<Rightarrow> string \<times> json_number option \<Rightarrow> bool" where
  "exceeds p cutoff_wall pair =
     (case p (replace_Z (fst pair)) of None \<Rightarrow> False | Some ts \<Rightarrow> cutoff_wall < wall ts)"

definition as_points ::
  "iso_parser \<Rightarrow> string \<times> json_number option \<Rightarrow> TimeseriesPoint list" where
  "as_points p pair =
     (case (p (replace_Z (fst pair)), snd pair) of
        (Some ts, Some n) \<Rightarrow>
          (case py_float n of
             Inl e \<Rightarrow> []
           | Inr v \<Rightarrow> [\<lparr>pt_timestamp = ts, pt_value = v\<rparr>])
      | _ \<Rightarrow> [])"

definition surviving ::
  "iso_parser \<Rightarrow> int \<Rightarrow> (string \<times> json_number option) list \<Rightarrow> TimeseriesPoint list" where
  "surviving p cutoff_wall pairs =
     concat (map (as_points p) (takeWhile (\<lambda>pair. \<not> exceeds p cutoff_wall pair) pairs))"

definition naive_times :: "iso_parser \<Rightarrow> (string \<times> json_number option) list \<Rightarrow> bool" where
  "naive_times p pairs =
     list_all (\<lambda>pair. case p (replace_Z (fst pair)) of None \<Rightarrow> True | Some ts \<Rightarrow> tzinfo ts = None)
       pairs"

definition convertible :: "(string \<times> json_number option) list \<Rightarrow> bool" where
  "convertible pairs =
     list_all (\<lambda>pair. case snd pair of None \<Rightarrow> True | Some n \<Rightarrow> py_float n \<noteq> Inl OverflowError)
       pairs"



section \<open>Properties of the geo distance\<close>

text \<open>
  In exact arithmetic, with \<open>s\<close> the squared sine of half the longitude difference,
  \<open>a\<close> is a convex combination of two terms in \<open>[0, 1]\<close>; there the square root and
  the arc sine are always defined, the distance of a coordinate to itself is 0, and the
  distance is symmetric and not negative.
\<close>

lemma sin_half_squared: "(sin (x / 2))\<^sup>2 = (1 - cos x) / (2::real)"
  using cos_double_sin [of "x / 2"] by simp

lemma radians_diff: "radians (x - y) = radians x - radians y"
  by (simp add: radians_def left_diff_distrib)

lemma haversine_a_exact:
  "haversine_a exact lat1 lon1 lat2 lon2 =
     (sin (radians (lat2 - lat1) / 2))\<^sup>2
     + cos (radians lat1) * cos (radians lat2) * (sin (radians (lon2 - lon1) / 2))\<^sup>2"
  by (simp add: haversine_a_def exact_def Let_def)

lemma haversine_a_expand:
  "haversine_a exact lat1 lon1 lat2 lon2 =
     (1 - cos (radians lat2 - radians lat1)) * (1 - (sin (radians (lon2 - lon1) / 2))\<^sup>2) / 2
     + (sin (radians (lon2 - lon1) / 2))\<^sup>2 * (1 + cos (radians lat1 + radians lat2)) / 2"
proof -
  have c: "cos (radians lat1) * cos (radians lat2)
      = (cos (radians lat2 - radians lat1) + cos (radians lat1 + radians lat2)) / 2"
    using cos_times_cos [of "radians lat1" "radians lat2"] cos_minus [of "radians lat1 - radians lat2"]
    by simp
  show ?thesis
    unfolding haversine_a_exact radians_diff [of lat2 lat1] c
      sin_half_squared [of "radians lat2 - radians lat1"]
    by (simp add: field_simps)
qed

lemma haversine_a_nonneg: "0 \<le> haversine_a exact lat1 lon1 lat2 lon2"
proof -
  let ?s = "(sin (radians (lon2 - lon1) / 2))\<^sup>2"
  let ?c1 = "cos (radians lat2 - radians lat1)"
  let ?c2 = "cos (radians lat1 + radians lat2)"
  have s: "0 \<le> ?s" "0 \<le> 1 - ?s" by (simp_all add: abs_square_le_1)
  have c1: "0 \<le> 1 - ?c1" by simp
  have c2: "0 \<le> 1 + ?c2" using cos_ge_minus_one [of "radians lat1 + radians lat2"] by linarith
  have "0 \<le> (1 - ?c1) * (1 - ?s)" using c1 s(2) by (rule mult_nonneg_nonneg)
  moreover have "0 \<le> ?s * (1 + ?c2)" using s(1) c2 by (rule mult_nonneg_nonneg)
  ultimately show ?thesis
    unfolding haversine_a_expand by simp
qed

lemma haversine_a_le_1: "haversine_a exact lat1 lon1 lat2 lon2 \<le> 1"
proof -
  let ?s = "(sin (radians (lon2 - lon1) / 2))\<^sup>2"
  let ?c1 = "cos (radians lat2 - radians lat1)"
  let ?c2 = "cos (radians lat1 + radians lat2)"
  have s: "0 \<le> ?s" "0 \<le> 1 - ?s" by (simp_all add: abs_square_le_1)
  have c1: "0 \<le> 1 + ?c1" using cos_ge_minus_one [of "radians lat2 - radians lat1"] by linarith
  have c2: "0 \<le> 1 - ?c2" by simp
  have a: "0 \<le> (1 + ?c1) * (1 - ?s)" using c1 s(2) by (rule mult_nonneg_nonneg)
  have b: "0 \<le> ?s * (1 - ?c2)" using s(1) c2 by (rule mult_nonneg_nonneg)
  have "1 - haversine_a exact lat1 lon1 lat2 lon2 = ((1 + ?c1) * (1 - ?s) + ?s * (1 - ?c2)) / 2"
    unfolding haversine_a_expand by (simp add: field_simps)
  moreover have "0 \<le> ((1 + ?c1) * (1 - ?s) + ?s * (1 - ?c2)) / 2"
    using a b by simp
  ultimately show ?thesis by linarith
qed

lemma haversine_distance_km_eq:
  "haversine_distance_km exact lat1 lon1 lat2 lon2
     = Inr (6371 * (2 * arcsin (sqrt (haversine_a exact lat1 lon1 lat2 lon2))))"
proof -
  let ?a = "haversine_a exact lat1 lon1 lat2 lon2"
  have a: "\<not> ?a < 0" using haversine_a_nonneg [of lat1 lon1 lat2 lon2] by simp
  have "0 \<le> sqrt ?a" using haversine_a_nonneg [of lat1 lon1 lat2 lon2] by simp
  then have lo: "\<not> sqrt ?a < - 1" by linarith
  have hi: "\<not> 1 < sqrt ?a" using haversine_a_le_1 [of lat1 lon1 lat2 lon2] by simp
  show ?thesis
    unfolding haversine_distance_km_def py_sqrt_def py_asin_def Let_def
    using a lo hi by (simp add: exact_def)
qed

lemma haversine_a_same: "haversine_a exact lat lon lat lon = 0"
  by (simp add: haversine_a_exact radians_def)

lemma haversine_a_sym:
  "haversine_a exact lat1 lon1 lat2 lon2 = haversine_a exact lat2 lon2 lat1 lon1"
proof -
  have lat: "radians (lat2 - lat1) / 2 = - (radians (lat1 - lat2) / 2)"
    unfolding radians_diff by argo
  have lon: "radians (lon2 - lon1) / 2 = - (radians (lon1 - lon2) / 2)"
    unfolding radians_diff by argo
  show ?thesis
    unfolding haversine_a_exact lat lon sin_minus by (simp add: mult.commute)
qed

lemma haversine_same_point: "haversine_distance_km exact lat lon lat lon = Inr 0"
  by (simp add: haversine_distance_km_eq haversine_a_same)

lemma distance_km_exact:
  "haversine_distance_km exact lat lon lat lon = Inr 0
   \<and> haversine_distance_km exact lat1 lon1 lat2 lon2 = haversine_distance_km exact lat2 lon2 lat1 lon1
   \<and> (\<exists>d. haversine_distance_km exact lat1 lon1 lat2 lon2 = Inr d \<and> 0 \<le> d)"
proof -
  have nn: "0 \<le> arcsin (sqrt (haversine_a exact lat1 lon1 lat2 lon2))"
    using haversine_a_nonneg [of lat1 lon1 lat2 lon2] haversine_a_le_1 [of lat1 lon1 lat2 lon2]
    by (intro arcsin_nonneg) simp
  have "haversine_distance_km exact lat1 lon1 lat2 lon2
      = haversine_distance_km exact lat2 lon2 lat1 lon1"
    by (simp add: haversine_distance_km_eq haversine_a_sym [of lat1 lon1 lat2 lon2])
  moreover have "\<exists>d. haversine_distance_km exact lat1 lon1 lat2 lon2 = Inr d \<and> 0 \<le> d"
    using nn by (simp add: haversine_distance_km_eq)
  ultimately show ?thesis
    using haversine_same_point by blast
qed

text \<open>
  In any arithmetic, a value of \<open>a\<close> whose square root comes out above 1 makes
  \<^verbatim>\<open>math.asin\<close> raise: the code has no clamp.
\<close>

lemma haversine_raises_on_overshoot:
  assumes "0 \<le> haversine_a fl lat1 lon1 lat2 lon2"
    and "1 < f_sqrt fl (haversine_a fl lat1 lon1 lat2 lon2)"
  shows "haversine_distance_km fl lat1 lon1 lat2 lon2 = Inl ValueError"
  using assms by (simp add: haversine_distance_km_def py_sqrt_def py_asin_def Let_def)

text \<open>
  Claim C6.  The claim has the distance function always return a value that is not
  negative.  The two coordinates below are doubles in range, nearly antipodal
  (64.4945982276434, -178.56882179603258 and -64.49459843176787, 1.4311784577235718).
  The arithmetic is the one of the reals except on the operations of this call, where
  it returns the doubles that CPython returns on them: the sum \<open>a\<close> comes out as
  1.0000000000000004, its square root as 1.0000000000000002, and \<^verbatim>\<open>math.asin\<close>
  raises \<open>ValueError\<close>.
\<close>

theorem distance_km_raises_near_antipodes:
  "haversine_distance_km
     \<lparr>f_sub = (\<lambda>x y. if x = - (4538403897886243 / 70368744177664) \<and> y = 1134600970880565 / 17592186044416
                       then - (1134600972676063 / 8796093022208)
                     else if x = 6445454768904559 / 4503599627370496 \<and> y = - (785353983691993 / 4398046511104)
                       then 6333186984918011 / 35184372088832
                     else x - y),
        f_add = (\<lambda>x y. if x = 3668573362861621 / 4503599627370496 \<and> y = 6680210116071013 / 36028797018963968
                       then 2251799813685249 / 2251799813685248
                     else x + y),
        f_mul = (\<lambda>x y. if x = 1939232838461885 / 4503599627370496 \<and> y = 7756931295923221 / 18014398509481984
                       then 6680210116071013 / 36028797018963968
                     else x * y),
        f_div = (\<lambda>x y. x / y),
        f_sq = (\<lambda>x. if x = - (4064699943410943 / 4503599627370496) then 3668573362861621 / 4503599627370496
                   else x\<^sup>2),
        f_radians = (\<lambda>x. if x = - (1134600972676063 / 8796093022208) then - (5069445803399045 / 2251799813685248)
                        else if x = 6333186984918011 / 35184372088832 then 442139860125087 / 140737488355328
                        else if x = 1134600970880565 / 17592186044416 then 2534722897688341 / 2251799813685248
                        else if x = - (4538403897886243 / 70368744177664) then - (5069445811421405 / 4503599627370496)
                        else radians x),
        f_sin = (\<lambda>x. if x = - (5069445803399045 / 4503599627370496) then - (4064699943410943 / 4503599627370496)
                    else if x = 442139860125087 / 281474976710656 then 1
                    else sin x),
        f_cos = (\<lambda>x. if x = 2534722897688341 / 2251799813685248 then 1939232838461885 / 4503599627370496
                    else if x = - (5069445811421405 / 4503599627370496) then 7756931295923221 / 18014398509481984
                    else cos x),
        f_sqrt = (\<lambda>x. if x = 2251799813685249 / 2251799813685248 then 4503599627370497 / 4503599627370496
                     else sqrt x),
        f_asin = arcsin\<rparr>
     (1134600970880565 / 17592186044416) (- (785353983691993 / 4398046511104))
     (- (4538403897886243 / 70368744177664)) (6445454768904559 / 4503599627370496)
   = Inl ValueError"
  by (simp add: haversine_distance_km_def haversine_a_def py_sqrt_def py_asin_def Let_def)

section \<open>Properties of the observation store\<close>

text \<open>
  Claim C9.  An observation submitted with no source, a null source or the empty
  string as source is stored, and returned, with source \<open>''user''\<close>; a non-empty
  source is stored and returned unchanged.  The stored record is the last element
  of the store after the call.
\<close>

theorem add_observation_source_default:
  "source (fst (add_observation obs uuid clock st)) =
     (if source obs = None \<or> source obs = Some [] then Some ''user'' else source obs)
   \<and> last (snd (add_observation obs uuid clock st)) = fst (add_observation obs uuid clock st)"
  by (cases "source obs") (simp_all add: add_observation_def Let_def str_or_def)

lemma handle_prefix: "prefix st (snd (handle fl p req st))"
  by (cases req) (simp_all add: add_observation_def Let_def)

lemma run_prefix: "prefix st (run fl p reqs st)"
proof (induction reqs arbitrary: st)
  case Nil
  show ?case by simp
next
  case (Cons req reqs)
  have "prefix st (snd (handle fl p req st))" by (rule handle_prefix)
  also have "prefix (snd (handle fl p req st)) (run fl p reqs (snd (handle fl p req st)))"
    by (rule Cons.IH)
  finally show ?case by simp
qed

text \<open>
  Claim C8.  The store only grows: POST /observations extends it by exactly the
  returned record, at the end; the observation listing, the timeseries composition
  (with its observation filter) and every other request that is not a POST leave it
  as it was; so a prefix of the store stays a prefix after any sequence of requests.
\<close>

theorem store_only_grows:
  "snd (handle fl p (AddObservation obs uuid clock) st) = st @ [fst (add_observation obs uuid clock st)]
   \<and> snd (handle fl p (ListObservations m lat_opt lon_opt r hours clock1 clock2) st) = st
   \<and> snd (handle fl p (Timeseries mk lat lon hours incl reply clock1 clock2) st) = st
   \<and> (\<forall>req. (\<forall>obs uuid clock. req \<noteq> AddObservation obs uuid clock) \<longrightarrow> snd (handle fl p req st) = st)
   \<and> (\<forall>pre. prefix pre st \<longrightarrow> prefix pre (run fl p reqs st))"
proof -
  have add: "snd (handle fl p (AddObservation obs uuid clock) st)
      = st @ [fst (add_observation obs uuid clock st)]"
    by (simp add: add_observation_def Let_def)
  have other: "snd (handle fl p req st) = st"
    if "\<forall>obs uuid clock. req \<noteq> AddObservation obs uuid clock" for req
    using that by (cases req) simp_all
  have pre: "prefix pre (run fl p reqs st)" if "prefix pre st" for pre
    using that run_prefix [of st fl p reqs] by (rule prefix_order.trans)
  from add other pre show ?thesis by simp
qed

theorem store_only_grows_witness:
  "(\<forall>obs uuid clock. ListObservations None None None 100 72 5 5 \<noteq> AddObservation obs uuid clock)
   \<and> snd (handle exact (\<lambda>s. None) (ListObservations None None None 100 72 5 5)
        [\<lparr>timestamp = \<lparr>wall = 0, tzinfo = None\<rparr>, metric = humidity, value' = 60, latitude = 10,
          longitude = 10, location_name = None, source = Some ''user'', notes' = None,
          id' = ''id-0'', submitted_at = \<lparr>wall = 1, tzinfo = None\<rparr>\<rparr>])
      = [\<lparr>timestamp = \<lparr>wall = 0, tzinfo = None\<rparr>, metric = humidity, value' = 60, latitude = 10,
          longitude = 10, location_name = None, source = Some ''user'', notes' = None,
          id' = ''id-0'', submitted_at = \<lparr>wall = 1, tzinfo = None\<rparr>\<rparr>]
   \<and> prefix
        [\<lparr>timestamp = \<lparr>wall = 0, tzinfo = None\<rparr>, metric = humidity, value' = 60, latitude = 10,
          longitude = 10, location_name = None, source = Some ''user'', notes' = None,
          id' = ''id-0'', submitted_at = \<lparr>wall = 1, tzinfo = None\<rparr>\<rparr>]
        [\<lparr>timestamp = \<lparr>wall = 0, tzinfo = None\<rparr>, metric = humidity, value' = 60, latitude = 10,
          longitude = 10, location_name = None, source = Some ''user'', notes' = None,
          id' = ''id-0'', submitted_at = \<lparr>wall = 1, tzinfo = None\<rparr>\<rparr>]
   \<and> prefix
        [\<lparr>timestamp = \<lparr>wall = 0, tzinfo = None\<rparr>, metric = humidity, value' = 60, latitude = 10,
          longitude = 10, location_name = None, source = Some ''user'', notes' = None,
          id' = ''id-0'', submitted_at = \<lparr>wall = 1, tzinfo = None\<rparr>\<rparr>]
        (run exact (\<lambda>s. None)
           [ListObservations None None None 100 72 5 5,
            AddObservation
              \<lparr>timestamp = \<lparr>wall = 4, tzinfo = None\<rparr>, metric = temperature, value' = 21.5,
               latitude = 40, longitude = - 74, location_name = None, source = None, notes' = None\<rparr>
              ''id-1'' 6]
           [\<lparr>timestamp = \<lparr>wall = 0, tzinfo = None\<rparr>, metric = humidity, value' = 60, latitude = 10,
             longitude = 10, location_name = None, source = Some ''user'', notes' = None,
             id' = ''id-0'', submitted_at = \<lparr>wall = 1, tzinfo = None\<rparr>\<rparr>])
   \<and> run exact (\<lambda>s. None)
           [ListObservations None None None 100 72 5 5,
            AddObservation
              \<lparr>timestamp = \<lparr>wall = 4, tzinfo = None\<rparr>, metric = temperature, value' = 21.5,
               latitude = 40, longitude = - 74, location_name = None, source = None, notes' = None\<rparr>
              ''id-1'' 6]
           [\<lparr>timestamp = \<lparr>wall = 0, tzinfo = None\<rparr>, metric = humidity, value' = 60, latitude = 10,
             longitude = 10, location_name = None, source = Some ''user'', notes' = None,
             id' = ''id-0'', submitted_at = \<lparr>wall = 1, tzinfo = None\<rparr>\<rparr>]
      = [\<lparr>timestamp = \<lparr>wall = 0, tzinfo = None\<rparr>, metric = humidity, value' = 60, latitude = 10,
          longitude = 10, location_name = None, source = Some ''user'', notes' = None,
          id' = ''id-0'', submitted_at = \<lparr>wall = 1, tzinfo = None\<rparr>\<rparr>,
         \<lparr>timestamp = \<lparr>wall = 4, tzinfo = None\<rparr>, metric = temperature, value' = 21.5,
          latitude = 40, longitude = - 74, location_name = None, source = Some ''user'', notes' = None,
          id' = ''id-1'', submitted_at = \<lparr>wall = 6, tzinfo = None\<rparr>\<rparr>]"
proof -
  let ?r0 = "\<lparr>timestamp = \<lparr>wall = 0, tzinfo = None\<rparr>, metric = humidity, value' = 60, latitude = 10,
          longitude = 10, location_name = None, source = Some ''user'', notes' = None,
          id' = ''id-0'', submitted_at = \<lparr>wall = 1, tzinfo = None\<rparr>\<rparr>"
  let ?reqs = "[ListObservations None None None 100 72 5 5,
            AddObservation
              \<lparr>timestamp = \<lparr>wall = 4, tzinfo = None\<rparr>, metric = temperature, value' = 21.5,
               latitude = 40, longitude = - 74, location_name = None, source = None, notes' = None\<rparr>
              ''id-1'' 6]"
  have pre: "prefix [?r0] [?r0]" by simp
  have query: "\<forall>obs uuid clock. ListObservations None None None 100 72 5 5 \<noteq> AddObservation obs uuid clock"
    by simp
  have "prefix [?r0] (run exact (\<lambda>s. None) ?reqs [?r0])"
    using store_only_grows [where st = "[?r0]" and reqs = ?reqs and p = "\<lambda>s. None" and fl = exact] pre by blast
  moreover have "snd (handle exact (\<lambda>s. None) (ListObservations None None None 100 72 5 5) [?r0]) = [?r0]"
    using store_only_grows [where st = "[?r0]" and p = "\<lambda>s. None" and fl = exact] query by blast
  moreover have "run exact (\<lambda>s. None) ?reqs [?r0] = [?r0,
         \<lparr>timestamp = \<lparr>wall = 4, tzinfo = None\<rparr>, metric = temperature, value' = 21.5,
          latitude = 40, longitude = - 74, location_name = None, source = Some ''user'', notes' = None,
          id' = ''id-1'', submitted_at = \<lparr>wall = 6, tzinfo = None\<rparr>\<rparr>]"
    by (simp add: add_observation_def Let_def str_or_def utcnow_def)
  ultimately show ?thesis using pre by simp
qed

section \<open>Properties of the observation queries\<close>

text \<open>
  The cutoff of a query is naive, so the age test on a record returns a truth value
  exactly when the record's timestamp is naive.
\<close>

lemma dt_less_naive:
  "tzinfo b = None \<Longrightarrow>
   dt_less a b = (if tzinfo a = None then Inr (wall a < wall b) else Inl TypeError)"
  by (cases "tzinfo a") (simp_all add: dt_less_def)

lemma py_sorted_naive:
  "\<forall>x \<in> set xs. tzinfo (timestamp x) = None \<Longrightarrow>
   py_sorted xs = Inr (sort_key (\<lambda>item. utc_key (timestamp item)) xs)"
  by (auto simp: py_sorted_def)

lemma cutoff_naive:
  "tzinfo (dt_minus (utcnow clock) (timedelta_hours hours)) = None"
  "wall (dt_minus (utcnow clock) (timedelta_hours hours)) = clock - hours * 3600000000"
  by (simp_all add: dt_minus_def utcnow_def timedelta_hours_def)

text \<open>
  Without a centre the listing makes no distance computation, whatever the arithmetic:
  it raises when a record of the metric has an aware timestamp, and otherwise returns
  the records that pass the metric and the age test, sorted by timestamp with ties in
  arrival order.
\<close>

lemma list_loop_without_center:
  assumes "tzinfo cutoff = None" and "lat_opt = None \<or> lon_opt = None"
  shows "list_loop fl m cutoff lat_opt lon_opt r xs acc =
     (if \<exists>obs \<in> set xs. aware_match m obs then Inl TypeError
      else Inr (acc @ filter (\<lambda>obs. metric_matches m obs \<and> recent (wall cutoff) obs) xs))"
proof (induction xs arbitrary: acc)
  case Nil
  show ?case by simp
next
  case (Cons obs rest)
  show ?case
  proof (cases "metric_matches m obs")
    case False
    then show ?thesis
      using Cons.IH [of acc] by (auto simp: metric_matches_def aware_match_def)
  next
    case True
    note mm = this
    show ?thesis
    proof (cases "tzinfo (timestamp obs)")
      case (Some off)
      then show ?thesis
        using mm assms(1) by (auto simp: metric_matches_def aware_match_def dt_less_naive)
    next
      case None
      then have na: "\<not> aware_match m obs" by (simp add: aware_match_def)
      show ?thesis
        using mm None assms na Cons.IH [of acc] Cons.IH [of "acc @ [obs]"]
        by (auto simp: metric_matches_def dt_less_naive recent_def split: option.splits)
    qed
  qed
qed

lemma list_observations_without_center:
  assumes "lat_opt = None \<or> lon_opt = None"
  shows "list_observations fl st m lat_opt lon_opt r hours clock1 clock2 =
     (if \<exists>obs \<in> set st. aware_match m obs then Inl TypeError
      else Inr (sort_key (\<lambda>item. utc_key (timestamp item))
                 (filter (\<lambda>obs. metric_matches m obs \<and> recent (clock2 - hours * 3600000000) obs) st)))"
proof -
  have data: "(case (lat_opt, lon_opt) of
                 (Some lat, Some lon) \<Rightarrow> filter_user_observations fl st lat lon m hours r clock1
               | _ \<Rightarrow> Inr st) = Inr st"
    using assms by (auto split: option.splits)
  show ?thesis
  proof (cases "\<exists>obs \<in> set st. aware_match m obs")
    case True
    then show ?thesis
      unfolding list_observations_def data
      by (simp add: Let_def list_loop_without_center [OF _ assms] cutoff_naive)
  next
    case False
    let ?keep = "\<lambda>obs. metric_matches m obs \<and> recent (clock2 - hours * 3600000000) obs"
    have "\<forall>x \<in> set (filter ?keep st). tzinfo (timestamp x) = None"
      using False by (auto simp: aware_match_def)
    then have "py_sorted (filter ?keep st)
        = Inr (sort_key (\<lambda>item. utc_key (timestamp item)) (filter ?keep st))"
      by (rule py_sorted_naive)
    then show ?thesis
      unfolding list_observations_def data
      using False by (simp add: Let_def list_loop_without_center [OF _ assms] cutoff_naive)
  qed
qed

lemma list_observations_one_coordinate:
  "list_observations fl st m (Some lat) None r hours clock1 clock2
     = list_observations fl st m None None r hours clock1' clock2
   \<and> list_observations fl st m None (Some lon) r hours clock1 clock2
     = list_observations fl st m None None r hours clock1' clock2
   \<and> list_observations fl st m None None r hours clock1' clock2
     = (if \<exists>obs \<in> set st. aware_match m obs then Inl TypeError
        else Inr (sort_key (\<lambda>item. utc_key (timestamp item))
                   (filter (\<lambda>obs. metric_matches m obs \<and> recent (clock2 - hours * 3600000000) obs) st)))"
  by (simp add: list_observations_without_center)

text \<open>
  Claim C10.  The claim has a GET /observations request with exactly one of latitude
  and longitude return the records that pass the metric and the age test, sorted by
  timestamp.  The store below holds the one record of a POST /observations whose
  timestamp was sent with a UTC offset (\<^verbatim>\<open>2024-01-01T00:00:00Z\<close>).  The request
  with the latitude only and the record's metric returns no list: the age test of the
  handler's own loop raises \<open>TypeError\<close>, whatever the arithmetic.
\<close>

theorem one_coordinate_request_raises:
  "list_observations fl
     (snd (add_observation
        \<lparr>timestamp = \<lparr>wall = 1704067200000000, tzinfo = Some 0\<rparr>, metric = temperature,
         value' = 21.5, latitude = 40, longitude = - 74, location_name = None, source = None,
         notes' = None\<rparr>
        ''id-1'' 1704067200000000 []))
     (Some temperature) (Some 40) None 100 72 1704067200000000 1704067200000000
   = Inl TypeError"
  by (simp add: list_observations_def add_observation_def Let_def dt_less_def dt_minus_def
        utcnow_def timedelta_hours_def)

text \<open>
  Claim C3.  The claim gives the result of the observation query for every content
  of the store.  The store below holds the one record of a POST /observations whose
  timestamp was sent with a UTC offset (\<^verbatim>\<open>2024-01-01T00:00:00Z\<close>); the query of the
  specification's scenario (same coordinate, same metric, 75 km, one hour) does not
  return that record but raises \<open>TypeError\<close> in the age test, whatever the arithmetic.
\<close>

theorem query_raises_on_aware_timestamp:
  "filter_user_observations fl
     (snd (add_observation
        \<lparr>timestamp = \<lparr>wall = 1704067200000000, tzinfo = Some 0\<rparr>, metric = temperature,
         value' = 21.5, latitude = 40, longitude = - 74, location_name = None, source = None,
         notes' = None\<rparr>
        ''id-1'' 1704067200000000 []))
     40 (- 74) (Some temperature) 1 75 1704067200000000
   = Inl TypeError"
  by (simp add: filter_user_observations_def add_observation_def Let_def dt_less_def dt_minus_def
        utcnow_def timedelta_hours_def)

text \<open>
  Claim C5.  The first record posted below has the coordinate of the query, a
  timestamp inside the window and the metric asked for, so the claim has it in the
  result.  The second record, posted with a UTC offset in its timestamp, makes the
  same query raise \<open>TypeError\<close>.  The theorem is stated for exact arithmetic, in
  which the distance of the first record, computed before, is 0; the lemma after it
  covers every arithmetic that computes this distance at all.
\<close>

theorem query_at_record_position_raises:
  "list_observations exact
     (run exact (\<lambda>s. None)
        [AddObservation
           \<lparr>timestamp = \<lparr>wall = 1704067200000000, tzinfo = None\<rparr>, metric = temperature,
            value' = 21.5, latitude = 40, longitude = - 74, location_name = None, source = None,
            notes' = None\<rparr>
           ''id-1'' 1704067200000000,
         AddObservation
           \<lparr>timestamp = \<lparr>wall = 1704067200000000, tzinfo = Some 0\<rparr>, metric = temperature,
            value' = 19, latitude = 41, longitude = - 73, location_name = None, source = None,
            notes' = None\<rparr>
           ''id-2'' 1704067200000000]
        [])
     (Some temperature) (Some 40) (Some (- 74)) 100 72 1704067200000000 1704067200000000
   = Inl TypeError"
  by (simp add: list_observations_def filter_user_observations_def add_observation_def Let_def
        dt_less_def dt_minus_def utcnow_def timedelta_hours_def haversine_same_point)

text \<open>
  The same query raises \<open>TypeError\<close> in every arithmetic in which the distance of the
  first record is computed at all.
\<close>

lemma query_at_record_position_raises_any_arith:
  assumes "haversine_distance_km fl 40 (- 74) 40 (- 74) = Inr d"
  shows "list_observations fl
     (run fl p
        [AddObservation
           \<lparr>timestamp = \<lparr>wall = 1704067200000000, tzinfo = None\<rparr>, metric = temperature,
            value' = 21.5, latitude = 40, longitude = - 74, location_name = None, source = None,
            notes' = None\<rparr>
           ''id-1'' 1704067200000000,
         AddObservation
           \<lparr>timestamp = \<lparr>wall = 1704067200000000, tzinfo = Some 0\<rparr>, metric = temperature,
            value' = 19, latitude = 41, longitude = - 73, location_name = None, source = None,
            notes' = None\<rparr>
           ''id-2'' 1704067200000000]
        [])
     (Some temperature) (Some 40) (Some (- 74)) 100 72 1704067200000000 1704067200000000
   = Inl TypeError"
  using assms
  by (simp add: list_observations_def filter_user_observations_def add_observation_def Let_def
        dt_less_def dt_minus_def utcnow_def timedelta_hours_def)

text \<open>
  What Claims C3 and C5 say does hold in exact arithmetic on a store of naive
  timestamps, such as the default \<^verbatim>\<open>datetime.utcnow\<close> of an omitted timestamp
  gives.  The scenario of Claim C3 with the timestamp sent without offset returns the
  record.  In general the query returns the records that pass the three tests, sorted
  by timestamp, ties in arrival order; a record passes a query centred at its own
  coordinate whatever the radius \<open>r \<ge> 0\<close>; and a radius of 0 keeps only records at
  distance 0.
\<close>

lemma filter_loop_char:
  assumes "tzinfo cutoff = None"
  shows "filter_loop exact lat lon m cutoff r xs acc =
     (if \<exists>obs \<in> set xs. aware_match m obs then Inl TypeError
      else Inr (acc @ filter (\<lambda>obs. metric_matches m obs \<and> recent (wall cutoff) obs
                                \<and> within_radius exact lat lon r obs) xs))"
proof (induction xs arbitrary: acc)
  case Nil
  show ?case by simp
next
  case (Cons obs rest)
  show ?case
  proof (cases "metric_matches m obs")
    case False
    then show ?thesis
      using Cons.IH [of acc] by (auto simp: metric_matches_def aware_match_def)
  next
    case True
    note mm = this
    show ?thesis
    proof (cases "tzinfo (timestamp obs)")
      case (Some off)
      then show ?thesis
        using mm assms by (auto simp: metric_matches_def aware_match_def dt_less_naive)
    next
      case None
      then have na: "\<not> aware_match m obs" by (simp add: aware_match_def)
      show ?thesis
        using mm None assms na Cons.IH [of acc] Cons.IH [of "acc @ [obs]"]
        by (auto simp: metric_matches_def dt_less_naive recent_def within_radius_def
              haversine_distance_km_eq)
    qed
  qed
qed

lemma filter_user_observations_char:
  "filter_user_observations exact st lat lon m hours r clock =
     (if \<exists>obs \<in> set st. aware_match m obs then Inl TypeError
      else Inr (sort_key (\<lambda>item. utc_key (timestamp item))
                 (filter (passes exact (Some lat) (Some lon) m (clock - hours * 3600000000) r) st)))"
proof (cases "\<exists>obs \<in> set st. aware_match m obs")
  case True
  then show ?thesis
    by (simp add: filter_user_observations_def Let_def filter_loop_char cutoff_naive)
next
  case False
  let ?keep = "\<lambda>obs. metric_matches m obs \<and> recent (clock - hours * 3600000000) obs
                  \<and> within_radius exact lat lon r obs"
  have "\<forall>x \<in> set (filter ?keep st). tzinfo (timestamp x) = None"
    using False by (auto simp: aware_match_def)
  then have "py_sorted (filter ?keep st)
      = Inr (sort_key (\<lambda>item. utc_key (timestamp item)) (filter ?keep st))"
    by (rule py_sorted_naive)
  moreover have "passes exact (Some lat) (Some lon) m (clock - hours * 3600000000) r = ?keep"
    by (simp add: passes_def fun_eq_iff)
  ultimately show ?thesis
    using False
    by (simp add: filter_user_observations_def Let_def filter_loop_char cutoff_naive)
qed

lemma filter_user_observations_scenario:
  "filter_user_observations exact
     (snd (add_observation
        \<lparr>timestamp = \<lparr>wall = 1704067200000000, tzinfo = None\<rparr>, metric = temperature,
         value' = 21.5, latitude = 40, longitude = - 74, location_name = None, source = None,
         notes' = None\<rparr>
        ''id-1'' 1704067200000000 []))
     40 (- 74) (Some temperature) 1 75 1704067200000000
   = Inr [\<lparr>timestamp = \<lparr>wall = 1704067200000000, tzinfo = None\<rparr>, metric = temperature,
          value' = 21.5, latitude = 40, longitude = - 74, location_name = None,
          source = Some ''user'', notes' = None, id' = ''id-1'',
          submitted_at = \<lparr>wall = 1704067200000000, tzinfo = None\<rparr>\<rparr>]"
  by (simp add: filter_user_observations_def add_observation_def Let_def dt_less_def dt_minus_def
        utcnow_def timedelta_hours_def haversine_same_point py_sorted_def str_or_def)

lemma filter_user_observations_naive:
  assumes "\<forall>obs \<in> set st. tzinfo (timestamp obs) = None"
  shows "filter_user_observations exact st lat lon m hours r clock =
     Inr (sort_key (\<lambda>item. utc_key (timestamp item))
            (filter (passes exact (Some lat) (Some lon) m (clock - hours * 3600000000) r) st))"
  using assms by (auto simp: filter_user_observations_char aware_match_def)

lemma passes_at_own_position:
  assumes "0 \<le> r" and "metric_matches m obs" and "recent c obs"
  shows "passes exact (Some (latitude obs)) (Some (longitude obs)) m c r obs"
  using assms by (simp add: passes_def within_radius_def haversine_same_point)

lemma passes_radius_zero:
  assumes "passes exact (Some lat) (Some lon) m c 0 obs"
  shows "haversine_distance_km exact lat lon (latitude obs) (longitude obs) = Inr 0"
proof -
  from assms
  have "6371 * (2 * arcsin (sqrt (haversine_a exact lat lon (latitude obs) (longitude obs)))) \<le> 0"
    by (simp add: passes_def within_radius_def haversine_distance_km_eq)
  moreover have "0 \<le> arcsin (sqrt (haversine_a exact lat lon (latitude obs) (longitude obs)))"
    using haversine_a_nonneg [of lat lon "latitude obs" "longitude obs"]
      haversine_a_le_1 [of lat lon "latitude obs" "longitude obs"]
    by (intro arcsin_nonneg) simp
  ultimately show ?thesis
    by (simp add: haversine_distance_km_eq)
qed

lemma sort_key_by_timestamp:
  "sorted (map (\<lambda>item. utc_key (timestamp item)) (sort_key (\<lambda>item. utc_key (timestamp item)) xs))
   \<and> filter (\<lambda>y. utc_key (timestamp y) = k) (sort_key (\<lambda>item. utc_key (timestamp item)) xs)
       = filter (\<lambda>y. utc_key (timestamp y) = k) xs"
  by (simp add: sorted_sort_key sort_key_stable)

section \<open>Properties of the forecast fetcher\<close>

lemma dt_greater_naive:
  "tzinfo b = None \<Longrightarrow>
   dt_greater a b = (if tzinfo a = None then Inr (wall b < wall a) else Inl TypeError)"
  by (cases "tzinfo a") (simp_all add: dt_greater_def dt_less_def)

lemma fetch_loop_within_cutoff:
  assumes "fetch_loop p cutoff pairs acc = Inr pts"
    and "\<forall>q \<in> set acc. dt_greater (pt_timestamp q) cutoff = Inr False"
  shows "\<forall>q \<in> set pts. dt_greater (pt_timestamp q) cutoff = Inr False"
  using assms
proof (induction pairs arbitrary: acc)
  case Nil
  then show ?case by simp
next
  case (Cons pair rest)
  obtain raw_time raw_value where pair: "pair = (raw_time, raw_value)"
    by (cases pair)
  show ?case
  proof (cases "p (replace_Z raw_time)")
    case None
    with Cons pair show ?thesis by simp
  next
    case (Some ts)
    note parsed = this
    show ?thesis
    proof (cases "dt_greater ts cutoff")
      case (Inl e)
      with Cons.prems parsed pair show ?thesis by simp
    next
      case (Inr later)
      note compared = this
      show ?thesis
      proof (cases later)
        case True
        with Cons.prems parsed compared pair show ?thesis by simp
      next
        case False
        show ?thesis
        proof (cases raw_value)
          case None
          with Cons parsed compared False pair show ?thesis by simp
        next
          case (Some n)
          show ?thesis
          proof (cases "py_float n")
            case (Inl e)
            with Cons.prems(1) parsed compared False Some pair show ?thesis by simp
          next
            case (Inr v)
            have "\<forall>q \<in> set (acc @ [\<lparr>pt_timestamp = ts, pt_value = v\<rparr>]).
                    dt_greater (pt_timestamp q) cutoff = Inr False"
              using Cons.prems(2) compared False by simp
            moreover
            have "fetch_loop p cutoff rest (acc @ [\<lparr>pt_timestamp = ts, pt_value = v\<rparr>]) = Inr pts"
              using Cons.prems(1) parsed compared False Some Inr pair by simp
            ultimately show ?thesis
              using Cons.IH by blast
          qed
        qed
      qed
    qed
  qed
qed

lemma py_slice_to_length: "0 \<le> n \<Longrightarrow> int (length (py_slice_to xs n)) \<le> n"
  by (simp add: py_slice_to_def)

lemma py_slice_to_subset: "set (py_slice_to xs n) \<subseteq> set xs"
  by (auto simp: py_slice_to_def dest: in_set_takeD)

lemma py_slice_to_nonempty: "1 \<le> n \<Longrightarrow> xs \<noteq> [] \<Longrightarrow> py_slice_to xs n \<noteq> []"
  by (cases xs) (auto simp: py_slice_to_def take_Cons split: nat.splits)

lemma fetch_hourly_data_Inr:
  assumes "fetch_hourly_data p m lat lon hours response clock = Inr resp"
  obtains pairs pts where
    "fetch_loop p (dt_plus (utcnow clock) (timedelta_hours hours)) pairs [] = Inr pts"
    "pts \<noteq> []" "points resp = py_slice_to pts hours"
  using assms
  by (auto simp: fetch_hourly_data_def Let_def
        split: http_reply.splits option.splits sum.splits if_splits)

lemma cutoff_plus:
  "tzinfo (dt_plus (utcnow clock) (timedelta_hours hours)) = None"
  by (simp add: dt_plus_def utcnow_def)

text \<open>
  Claim C1.  For hours between 1 and 168, a response of the fetcher has at most
  \<open>hours\<close> points, and no point of it has a timestamp after the clock reading plus
  \<open>hours\<close>: each timestamp is naive, like the cutoff, and not greater than it.
\<close>

theorem fetch_points_bounded:
  assumes "1 \<le> hours" and "hours \<le> 168"
    and "fetch_hourly_data p m lat lon hours response clock = Inr resp"
  shows "int (length (points resp)) \<le> hours
       \<and> (\<forall>q \<in> set (points resp).
             dt_greater (pt_timestamp q) (dt_plus (utcnow clock) (timedelta_hours hours)) = Inr False
             \<and> tzinfo (pt_timestamp q) = None
             \<and> wall (pt_timestamp q) \<le> clock + hours * 3600000000)"
proof -
  let ?cutoff = "dt_plus (utcnow clock) (timedelta_hours hours)"
  have c: "tzinfo ?cutoff = None" "wall ?cutoff = clock + hours * 3600000000"
    by (simp_all add: dt_plus_def utcnow_def timedelta_hours_def)
  from assms(3) obtain pairs pts where
    loop: "fetch_loop p ?cutoff pairs [] = Inr pts" and pts: "points resp = py_slice_to pts hours"
    by (rule fetch_hourly_data_Inr)
  have "\<forall>q \<in> set pts. dt_greater (pt_timestamp q) ?cutoff = Inr False"
    using loop by (rule fetch_loop_within_cutoff) simp
  then have all: "\<forall>q \<in> set (points resp). dt_greater (pt_timestamp q) ?cutoff = Inr False"
    using py_slice_to_subset [of pts hours] pts by auto
  have len: "int (length (points resp)) \<le> hours"
    using assms(1) pts by (simp add: py_slice_to_length)
  have "\<And>q. dt_greater (pt_timestamp q) ?cutoff = Inr False \<Longrightarrow>
          tzinfo (pt_timestamp q) = None \<and> wall (pt_timestamp q) \<le> clock + hours * 3600000000"
    using c by (auto simp: dt_greater_naive split: if_splits)
  with all len show ?thesis by blast
qed

theorem fetch_points_bounded_witness:
  "(1::int) \<le> 24 \<and> (24::int) \<le> 168
   \<and> fetch_hourly_data
        (\<lambda>s. if s = ''2024-01-01T00:00'' then Some \<lparr>wall = 0, tzinfo = None\<rparr>
             else if s = ''2024-01-01T01:00'' then Some \<lparr>wall = 3600000000, tzinfo = None\<rparr>
             else None)
        temperature 40 (- 74) 24
        (Reply (Some \<lparr>hourly = Present
           \<lparr>time_array = Some [''2024-01-01T00:00'', ''2024-01-01T01:00''],
            field_array = (\<lambda>k. if k = ''temperature_2m'' then Some [Some (JFloat 5), None]
                                else None)\<rparr>\<rparr>))
        0
      = Inr \<lparr>resp_metric = temperature, metric_label = ''Air Temperature'',
             resp_unit = [CHR 0xC2, CHR 0xB0, CHR ''C''], resp_latitude = 40, resp_longitude = - 74,
             hours_requested = 24, resp_source = ''open-meteo'',
             points = [\<lparr>pt_timestamp = \<lparr>wall = 0, tzinfo = None\<rparr>, pt_value = 5\<rparr>],
             user_observations = []\<rparr>
   \<and> int (length [\<lparr>pt_timestamp = \<lparr>wall = 0, tzinfo = None\<rparr>, pt_value = 5::real\<rparr>]) \<le> 24
   \<and> wall (pt_timestamp \<lparr>pt_timestamp = \<lparr>wall = 0, tzinfo = None\<rparr>, pt_value = 5::real\<rparr>)
        \<le> 0 + 24 * 3600000000"
proof -
  let ?p = "\<lambda>s. if s = ''2024-01-01T00:00'' then Some \<lparr>wall = 0, tzinfo = None\<rparr>
             else if s = ''2024-01-01T01:00'' then Some \<lparr>wall = 3600000000, tzinfo = None\<rparr>
             else None"
  let ?reply = "Reply (Some \<lparr>hourly = Present
           \<lparr>time_array = Some [''2024-01-01T00:00'', ''2024-01-01T01:00''],
            field_array = (\<lambda>k. if k = ''temperature_2m'' then Some [Some (JFloat 5), None]
                                else None)\<rparr>\<rparr>)"
  let ?resp = "\<lparr>resp_metric = temperature, metric_label = ''Air Temperature'',
             resp_unit = [CHR 0xC2, CHR 0xB0, CHR ''C''], resp_latitude = 40, resp_longitude = - 74,
             hours_requested = 24, resp_source = ''open-meteo'',
             points = [\<lparr>pt_timestamp = \<lparr>wall = 0, tzinfo = None\<rparr>, pt_value = 5\<rparr>],
             user_observations = []\<rparr>"
  have run: "fetch_hourly_data ?p temperature 40 (- 74) 24 ?reply 0 = Inr ?resp"
    by (simp add: fetch_hourly_data_def hourly_dict_def Let_def falsy_def or_empty_def replace_Z_def
          dt_greater_def dt_less_def dt_plus_def utcnow_def timedelta_hours_def py_slice_to_def)
  have h: "(1::int) \<le> 24" "(24::int) \<le> 168" by simp_all
  from fetch_points_bounded [OF h run] run show ?thesis by simp
qed

text \<open>
  On pairs whose timestamps parse to naive datetimes, if at all, and whose values
  convert, the loop returns the points of the surviving prefix, in order.
\<close>

lemma fetch_loop_naive:
  assumes "tzinfo cutoff = None" and "naive_times p pairs" and "convertible pairs"
  shows "fetch_loop p cutoff pairs acc = Inr (acc @ surviving p (wall cutoff) pairs)"
  using assms(2,3)
proof (induction pairs arbitrary: acc)
  case Nil
  show ?case by (simp add: surviving_def)
next
  case (Cons pair rest)
  obtain raw_time raw_value where pair: "pair = (raw_time, raw_value)"
    by (cases pair)
  from Cons.prems have rest: "naive_times p rest" "convertible rest"
    by (simp_all add: naive_times_def convertible_def)
  have tail: "surviving p (wall cutoff) (pair # rest)
      = (if exceeds p (wall cutoff) pair then []
         else as_points p pair @ surviving p (wall cutoff) rest)"
    by (simp add: surviving_def)
  show ?case
  proof (cases "p (replace_Z raw_time)")
    case None
    then show ?thesis
      using Cons.IH [OF rest, of acc] pair tail by (simp add: exceeds_def as_points_def)
  next
    case (Some ts)
    note parsed = this
    with Cons.prems pair have naive: "tzinfo ts = None"
      by (simp add: naive_times_def)
    show ?thesis
    proof (cases raw_value)
      case None
      then show ?thesis
        using Cons.IH [OF rest, of acc] pair tail parsed naive assms(1)
        by (simp add: exceeds_def as_points_def dt_greater_naive)
    next
      case (Some n)
      with Cons.prems(2) pair obtain v where v: "py_float n = Inr v"
        by (cases "py_float n"; cases n) (auto simp: convertible_def split: if_splits)
      show ?thesis
        using Cons.IH [OF rest, of "acc @ [\<lparr>pt_timestamp = ts, pt_value = v\<rparr>]"] pair tail
          parsed naive assms(1) Some v
        by (simp add: exceeds_def as_points_def dt_greater_naive)
    qed
  qed
qed

lemma fetch_loop_all_null:
  assumes "\<forall>pair \<in> set pairs. snd pair = None"
  shows "fetch_loop p cutoff pairs acc = Inr acc \<or> fetch_loop p cutoff pairs acc = Inl TypeError"
  using assms
proof (induction pairs arbitrary: acc)
  case Nil
  show ?case by simp
next
  case (Cons pair rest)
  obtain raw_time raw_value where pair: "pair = (raw_time, raw_value)"
    by (cases pair)
  with Cons.prems have null: "raw_value = None" by simp
  from Cons.prems have "fetch_loop p cutoff rest acc = Inr acc
      \<or> fetch_loop p cutoff rest acc = Inl TypeError"
    by (intro Cons.IH) simp
  then show ?case
    unfolding pair null
    by (cases "p (replace_Z raw_time)")
       (auto simp: dt_greater_def dt_less_def split: sum.splits option.splits prod.splits)
qed

text \<open>
  A timestamp that parses to an aware datetime, reached before the loop ends, makes the
  comparison with the naive cutoff raise.
\<close>

lemma fetch_loop_aware_head:
  assumes "p (replace_Z raw_time) = Some ts" and "tzinfo ts \<noteq> None" and "tzinfo cutoff = None"
  shows "fetch_loop p cutoff ((raw_time, raw_value) # rest) acc = Inl TypeError"
  using assms by (auto simp: dt_greater_naive)

text \<open>
  Claim C2.  The claim has every pair skipped, appended, or ending the loop.  On the
  arrays of the specification's scenario, whose timestamps end in \<^verbatim>\<open>Z\<close>, the parsed
  timestamp is aware (the \<^verbatim>\<open>Z\<close> was replaced by \<^verbatim>\<open>+00:00\<close>) and its comparison
  with the naive cutoff raises \<open>TypeError\<close>: the fetcher returns no point at all.
\<close>

theorem fetch_z_suffix_raises:
  "fetch_hourly_data
     (\<lambda>s. if s = ''2024-01-01T00:00+00:00'' then Some \<lparr>wall = 1704067200000000, tzinfo = Some 0\<rparr>
          else if s = ''2024-01-01T01:00+00:00'' then Some \<lparr>wall = 1704070800000000, tzinfo = Some 0\<rparr>
          else None)
     temperature 40 (- 74) 24
     (Reply (Some \<lparr>hourly = Present
        \<lparr>time_array = Some [''2024-01-01T00:00Z'', ''2024-01-01T01:00Z''],
         field_array = (\<lambda>k. if k = ''temperature_2m'' then Some [Some (JFloat 5), None]
                             else None)\<rparr>\<rparr>))
     1704067200000000
   = Inl TypeError"
  by (simp add: fetch_hourly_data_def hourly_dict_def Let_def falsy_def or_empty_def replace_Z_def
        dt_greater_def dt_less_def dt_plus_def utcnow_def timedelta_hours_def)

text \<open>
  Claim C4.  The claim has the fetcher fail with the 404 error when no pair survives
  the loop, in particular when every value is null.  In the payload below both arrays
  are non-empty, so the loop is reached, and the only value is null; the timestamp ends
  in \<^verbatim>\<open>Z\<close>.  The comparison with the cutoff comes before the test of the value and
  raises \<open>TypeError\<close>: the fetcher does not answer 404.
\<close>

theorem fetch_all_null_aware_raises:
  "fetch_hourly_data
     (\<lambda>s. if s = ''2024-01-01T00:00+00:00'' then Some \<lparr>wall = 1704067200000000, tzinfo = Some 0\<rparr>
          else None)
     temperature 40 (- 74) 24
     (Reply (Some \<lparr>hourly = Present
        \<lparr>time_array = Some [''2024-01-01T00:00Z''],
         field_array = (\<lambda>k. if k = ''temperature_2m'' then Some [None] else None)\<rparr>\<rparr>))
     1704067200000000
   = Inl TypeError"
  by (simp add: fetch_hourly_data_def hourly_dict_def Let_def falsy_def or_empty_def replace_Z_def
        dt_greater_def dt_less_def dt_plus_def utcnow_def timedelta_hours_def)

text \<open>
  What Claim C4 says does hold when the timestamps that parse are naive: with both
  arrays non-empty and every value null the fetcher answers 404, and for
  \<open>hours \<ge> 1\<close> it never succeeds with an empty point list.
\<close>

lemma fetch_all_null_naive_404:
  assumes "hourly payload = Present h"
    and "time_array h = Some ts" and "ts \<noteq> []"
    and "field_array h (api_field (METRIC_CATALOG m)) = Some vs" and "vs \<noteq> []"
    and "list_all (\<lambda>v. v = None) vs"
    and "naive_times p (zip ts vs)"
  shows "fetch_hourly_data p m lat lon hours (Reply (Some payload)) clock = Inl (HTTPException 404)"
proof -
  let ?cutoff = "dt_plus (utcnow clock) (timedelta_hours hours)"
  have null: "\<forall>pair \<in> set (zip ts vs). snd pair = None"
    using assms(6) by (auto simp: list_all_iff dest: set_zip_rightD)
  then have "convertible (zip ts vs)"
    by (auto simp: convertible_def list_all_iff)
  with cutoff_plus assms(7)
  have "fetch_loop p ?cutoff (zip ts vs) [] = Inr ([] @ surviving p (wall ?cutoff) (zip ts vs))"
    by (rule fetch_loop_naive)
  moreover from null
  have "fetch_loop p ?cutoff (zip ts vs) [] = Inr []
      \<or> fetch_loop p ?cutoff (zip ts vs) [] = Inl TypeError"
    by (rule fetch_loop_all_null)
  ultimately have "fetch_loop p ?cutoff (zip ts vs) [] = Inr []"
    by auto
  then show ?thesis
    using assms(1-5)
    by (simp add: fetch_hourly_data_def hourly_dict_def Let_def falsy_def or_empty_def)
qed

lemma fetch_never_empty_success:
  assumes "1 \<le> hours" and "fetch_hourly_data p m lat lon hours response clock = Inr resp"
  shows "points resp \<noteq> []"
proof -
  from assms(2) obtain pairs pts where "pts \<noteq> []" "points resp = py_slice_to pts hours"
    by (rule fetch_hourly_data_Inr)
  with assms(1) show ?thesis by (simp add: py_slice_to_nonempty)
qed

lemma py_float_overflow: "py_float (JInt (2 ^ 1024)) = Inl OverflowError"
  by simp

text \<open>
  The errors before the loop: a \<^verbatim>\<open>null\<close> body or a \<^verbatim>\<open>null\<close> under
  \<^verbatim>\<open>hourly\<close> raises \<open>AttributeError\<close>; an absent \<^verbatim>\<open>hourly\<close> key, or a time or
  value array that is absent, \<^verbatim>\<open>null\<close> or empty, is answered 502.
\<close>

lemma fetch_before_loop:
  "fetch_hourly_data p m lat lon hours (Reply None) clock = Inl AttributeError"
  "fetch_hourly_data p m lat lon hours (Reply (Some \<lparr>hourly = Null\<rparr>)) clock = Inl AttributeError"
  "fetch_hourly_data p m lat lon hours (Reply (Some \<lparr>hourly = Absent\<rparr>)) clock
     = Inl (HTTPException 502)"
  "falsy (time_array h) \<or> falsy (field_array h (api_field (METRIC_CATALOG m))) \<Longrightarrow>
     fetch_hourly_data p m lat lon hours (Reply (Some \<lparr>hourly = Present h\<rparr>)) clock
       = Inl (HTTPException 502)"
  by (auto simp: fetch_hourly_data_def hourly_dict_def Let_def falsy_def)

section \<open>Properties of the geocode adapter\<close>








end
